theory Spec2Isabelle
  imports Complex_Main
begin

section \<open>Data model\<close>

text \<open>
  The storefront's TypeScript declarations (\<^verbatim>\<open>types/type.ts\<close>) and the two pages that hold
  logic, \<^verbatim>\<open>PaymentPage\<close> and \<^verbatim>\<open>MyOrdersPage\<close>, are embedded below.

  Numbers. A TypeScript \<^verbatim>\<open>number\<close> that holds an identifier, a quantity, an HTTP status or
  a price in rupiah is an \<^typ>\<open>int\<close>; the tax and the total, which multiply by the
  fraction \<^verbatim>\<open>0.11\<close>, are \<^typ>\<open>rat\<close>. This is the arithmetic of the mathematical
  numbers. JavaScript computes in the binary64 format, whose rounding is not part of the
  calculator below; it is defined on its own further down, to show that it leaves the
  integers of the calculator as they are and gives the same values on the example of the
  spec.
\<close>

record CartItem =
  cosmetic_id :: int
  slug :: string
  quantity :: int

text \<open>
  Of the interface \<^verbatim>\<open>Cosmetic\<close> the checkout logic reads the fields \<^verbatim>\<open>id\<close> and
  \<^verbatim>\<open>price\<close>; the functions of the pricing calculator take any extension of this record,
  so the fields that only the markup shows (name, thumbnail, brand, ...) may be present.
\<close>

record Cosmetic =
  id' :: int
  price :: int

subsection \<open>Values that are not statically typed\<close>

text \<open>
  A response body is whatever the server sent: a JavaScript value built from JSON, or
  \<^verbatim>\<open>undefined\<close>. An object is the list of its properties, read from the front.
  Numbers in a body are integers.
\<close>

datatype jsval =
    JUndefined
  | JNull
  | JBool bool
  | JNum int
  | JStr string
  | JArr "jsval list"
  | JObj "(string \<times> jsval) list"

text \<open>
  What a page can catch: the error axios rejects with (it carries the response when the
  server answered, and none when the request never completed), the \<^verbatim>\<open>TypeError\<close> of a
  property read on \<^verbatim>\<open>null\<close> or \<^verbatim>\<open>undefined\<close>, and the \<^verbatim>\<open>SyntaxError\<close> of
  \<^verbatim>\<open>JSON.parse\<close>.
\<close>

record AxiosResponse =
  status :: int
  data :: jsval

datatype thrown =
    AxiosError "AxiosResponse option"
  | TypeError
  | SyntaxError

text \<open>A promise that has settled.\<close>

datatype 'a settled =
    Fulfilled 'a
  | Rejected thrown

text \<open>
  How a block of statements ends: normally, or by a throw; either way with the state it
  had reached.
\<close>

datatype 's completion =
    Normal 's
  | Throw thrown 's

subsection \<open>Forms\<close>

text \<open>The properties of a browser \<^verbatim>\<open>File\<close>; its bytes are not modelled.\<close>

record File =
  file_name :: string
  file_size :: nat
  file_type :: string

text \<open>
  The state type \<^verbatim>\<open>FormData\<close> of the payment page. The entries of \<^verbatim>\<open>cosmetic_ids\<close>,
  objects \<^verbatim>\<open>{id, quantity}\<close>, are pairs.
\<close>

record FormData =
  proof' :: "File option"
  cosmetic_ids :: "(int \<times> int) list"

text \<open>
  The interface \<^verbatim>\<open>BookingFormData\<close>, with the six properties it declares (the postal
  code is \<^verbatim>\<open>post_codes\<close>). The draft is read back from storage by \<^verbatim>\<open>JSON.parse\<close>
  and a type assertion, which checks nothing: \<open>undeclared\<close> holds the properties the
  stored object has beyond the declared ones.
\<close>

record BookingFormData =
  name :: string
  email :: string
  phone :: string
  post_codes :: string
  address :: string
  city :: string
  undeclared :: "(string \<times> jsval) list"

text \<open>
  A zod issue, with the two properties the pages read. A path element is a property name
  or an array index.
\<close>

datatype PathElem =
    Key string
  | Index nat

record ZodIssue =
  path :: "PathElem list"
  message :: string

datatype 'a SafeParseReturn =
    SafeParseSuccess 'a
  | SafeParseError "ZodIssue list"

text \<open>The body of a multipart request: the entries in the order of their \<^verbatim>\<open>append\<close>.\<close>

datatype FormDataEntryValue =
    FileEntry File
  | TextEntry string

type_synonym MultipartFormData = "(string \<times> FormDataEntryValue) list"

subsection \<open>The browser\<close>

text \<open>
  What the pages do to their surroundings: the local storage, the calls of
  \<^verbatim>\<open>navigate\<close> (with the navigation state, when one is passed), the requests sent through
  \<^verbatim>\<open>apiClient\<close> and the messages written to the console, each list oldest first.
\<close>

record NavState =
  bookingDetails :: jsval
  notFound :: bool

datatype Navigation =
    Navigate string "NavState option"

datatype Request =
    Get string
  | PostMultipart string MultipartFormData
  | PostJson string jsval

record Browser =
  localStorage :: "string \<rightharpoonup> string"
  navigated :: "Navigation list"
  requests :: "Request list"
  console :: "string list"

definition removeItem :: "string \<Rightarrow> Browser \<Rightarrow> Browser" where
  "removeItem key w = w\<lparr>localStorage := (localStorage w)(key := None)\<rparr>"

definition navigate :: "string \<Rightarrow> NavState option \<Rightarrow> Browser \<Rightarrow> Browser" where
  "navigate to st w = w\<lparr>navigated := navigated w @ [Navigate to st]\<rparr>"

definition send :: "Request \<Rightarrow> Browser \<Rightarrow> Browser" where
  "send r w = w\<lparr>requests := requests w @ [r]\<rparr>"

definition console_write :: "string \<Rightarrow> Browser \<Rightarrow> Browser" where
  "console_write msg w = w\<lparr>console := console w @ [msg]\<rparr>"

section \<open>JavaScript operations the pages use\<close>

text \<open>
  \<^verbatim>\<open>Array.prototype.reduce\<close> with an initial value: the callback sees the accumulator and
  the elements from left to right. \<^verbatim>\<open>Array.prototype.find\<close> is \<^const>\<open>List.find\<close>: the
  first element that satisfies the predicate, \<^const>\<open>None\<close> for \<^verbatim>\<open>undefined\<close>.
\<close>

fun reduce :: "('b \<Rightarrow> 'a \<Rightarrow> 'b) \<Rightarrow> 'b \<Rightarrow> 'a list \<Rightarrow> 'b" where
  "reduce f acc [] = acc"
| "reduce f acc (x # xs) = reduce f (f acc x) xs"

text \<open>
  The property read \<open>v.k\<close> on a response body, for the keys the pages read
  (\<^verbatim>\<open>data\<close>, \<^verbatim>\<open>booking_trx_id\<close>, \<^verbatim>\<open>email\<close>), which no string, number, boolean
  or array has: it throws on \<^verbatim>\<open>null\<close> and \<^verbatim>\<open>undefined\<close> and gives
  \<^verbatim>\<open>undefined\<close> where the property is missing.
\<close>

fun get_prop :: "jsval \<Rightarrow> string \<Rightarrow> thrown + jsval" where
  "get_prop JUndefined k = Inl TypeError"
| "get_prop JNull k = Inl TypeError"
| "get_prop (JObj ps) k = Inr (case map_of ps k of Some v \<Rightarrow> v | None \<Rightarrow> JUndefined)"
| "get_prop v k = Inr JUndefined"

text \<open>The values that count as true in a condition.\<close>

fun truthy :: "jsval \<Rightarrow> bool" where
  "truthy JUndefined = False"
| "truthy JNull = False"
| "truthy (JBool b) = b"
| "truthy (JNum n) = (n \<noteq> 0)"
| "truthy (JStr s) = (s \<noteq> [])"
| "truthy (JArr xs) = True"
| "truthy (JObj ps) = True"

text \<open>
  The decimal digits of a natural number, and \<^verbatim>\<open>String(n)\<close> for an integer (JavaScript
  writes an integer below \<open>10\<^sup>2\<^sup>1\<close> this way).
\<close>

fun dec_nat :: "nat \<Rightarrow> string" where
  "dec_nat n =
     (if n < 10 then [''0123456789'' ! n]
      else dec_nat (n div 10) @ [''0123456789'' ! (n mod 10)])"

declare dec_nat.simps [simp del]

definition String_number :: "int \<Rightarrow> string" where
  "String_number i = (if i < 0 then CHR ''-'' # dec_nat (nat (- i)) else dec_nat (nat i))"

text \<open>
  \<^verbatim>\<open>Array.prototype.join\<close>, and the conversion to a string that a template literal and
  \<^verbatim>\<open>FormData.append\<close> apply: an array joins its elements with commas, writing nothing
  for \<^verbatim>\<open>null\<close> and \<^verbatim>\<open>undefined\<close>.
\<close>

fun join :: "string \<Rightarrow> string list \<Rightarrow> string" where
  "join sep [] = []"
| "join sep [x] = x"
| "join sep (x # y # ys) = x @ sep @ join sep (y # ys)"

fun to_string :: "jsval \<Rightarrow> string" where
  "to_string JUndefined = ''undefined''"
| "to_string JNull = ''null''"
| "to_string (JBool b) = (if b then ''true'' else ''false'')"
| "to_string (JNum n) = String_number n"
| "to_string (JStr s) = s"
| "to_string (JArr xs) =
     join '','' (map (\<lambda>x. if x = JUndefined \<or> x = JNull then [] else to_string x) xs)"
| "to_string (JObj ps) = ''[object Object]''"

text \<open>
  \<^verbatim>\<open>Promise.all\<close>: the values in the order of the promises when all are fulfilled, a
  rejection when one is rejected. Which rejection it passes on depends on time; here it is
  the first in the list, and the page only logs it.
\<close>

fun Promise_all :: "'a settled list \<Rightarrow> 'a list settled" where
  "Promise_all [] = Fulfilled []"
| "Promise_all (Rejected e # ps) = Rejected e"
| "Promise_all (Fulfilled x # ps) =
     (case Promise_all ps of
        Fulfilled xs \<Rightarrow> Fulfilled (x # xs)
      | Rejected e \<Rightarrow> Rejected e)"

text \<open>
  The rounding of binary64, to the nearest number with 53 significant bits and to the even
  one of two nearest: \<open>binary64 e x\<close> is the rounding of a number \<open>x\<close> with the binary
  exponent \<open>e\<close>, that is with \<open>2\<^sup>e \<le> \<bar>x\<bar> < 2\<^sup>e\<^sup>+\<^sup>1\<close>, in the range of the normal
  numbers.
\<close>

definition round_half_even :: "rat \<Rightarrow> int" where
  "round_half_even x =
     (let f = \<lfloor>x\<rfloor>; r = x - of_int f
      in if r < 1 / 2 then f
         else if 1 / 2 < r then f + 1
         else if even f then f else f + 1)"

definition binary64 :: "int \<Rightarrow> rat \<Rightarrow> rat" where
  "binary64 e x = of_int (round_half_even (x / 2 powi (e - 52))) * 2 powi (e - 52)"

section \<open>Pricing calculator\<close>

definition TAX_RATE :: rat where
  "TAX_RATE = 11 / 100"

definition subtotal :: "CartItem list \<Rightarrow> 'a Cosmetic_scheme list \<Rightarrow> int" where
  "subtotal cart cosmeticDetails =
     reduce (\<lambda>acc cosmetic.
        let cartItem = find (\<lambda>item. cosmetic_id item = id' cosmetic) cart
        in acc + (case cartItem of
                    Some ci \<Rightarrow> price cosmetic * quantity ci
                  | None \<Rightarrow> 0))
       0 cosmeticDetails"

definition totalQuantity :: "CartItem list \<Rightarrow> int" where
  "totalQuantity cart = reduce (\<lambda>acc item. acc + quantity item) 0 cart"

definition tax :: "CartItem list \<Rightarrow> 'a Cosmetic_scheme list \<Rightarrow> rat" where
  "tax cart cosmeticDetails = of_int (subtotal cart cosmeticDetails) * TAX_RATE"

definition total :: "CartItem list \<Rightarrow> 'a Cosmetic_scheme list \<Rightarrow> rat" where
  "total cart cosmeticDetails =
     of_int (subtotal cart cosmeticDetails) + tax cart cosmeticDetails"

section \<open>The payment page\<close>

text \<open>The state of \<^verbatim>\<open>PaymentPage\<close>: one field for each \<^verbatim>\<open>useState\<close>.\<close>

record PaymentPage_state =
  formData :: FormData
  cart :: "CartItem list"
  cosmeticDetails :: "Cosmetic list"
  bookingData :: "BookingFormData option"
  formErrors :: "ZodIssue list"
  loading :: bool
  successMessage :: "string option"
  error :: "string option"
  fileName :: "string option"

definition PaymentPage_init :: PaymentPage_state where
  "PaymentPage_init =
     \<lparr>formData = \<lparr>proof' = None, cosmetic_ids = []\<rparr>,
      cart = [],
      cosmeticDetails = [],
      bookingData = None,
      formErrors = [],
      loading = True,
      successMessage = None,
      error = None,
      fileName = None\<rparr>"

subsection \<open>Fetching the product details\<close>

text \<open>
  \<^verbatim>\<open>fetchCosmeticDetails\<close>. The callback of \<^verbatim>\<open>cartItems.map\<close> runs for every item before
  anything is awaited, so every request is sent. \<open>apiClient_get i url\<close> is how the
  \<open>i\<close>-th callback settles: with the \<^verbatim>\<open>response.data.data\<close> of its request, or rejected
  (the request failed, or the body had no \<^verbatim>\<open>data\<close> to read from).
\<close>

definition fetchCosmeticDetails ::
  "(nat \<Rightarrow> string \<Rightarrow> Cosmetic settled) \<Rightarrow> CartItem list
     \<Rightarrow> PaymentPage_state \<times> Browser \<Rightarrow> PaymentPage_state \<times> Browser"
where
  "fetchCosmeticDetails apiClient_get cartItems sw =
     (let (s, w) = sw;
          urls = map (\<lambda>item. ''/cosmetic/'' @ slug item) cartItems;
          w1 = w\<lparr>requests := requests w @ map Get urls\<rparr>
      in case Promise_all (map (\<lambda>(i, url). apiClient_get i url) (enumerate 0 urls)) of
           Fulfilled fetchedDetails \<Rightarrow>
             (let cosmeticIdsWithQuantities =
                    map (\<lambda>cartItem. (cosmetic_id cartItem, quantity cartItem)) cartItems
              in (s\<lparr>cosmeticDetails := fetchedDetails,
                    loading := False,
                    formData := (formData s)\<lparr>cosmetic_ids := cosmeticIdsWithQuantities\<rparr>\<rparr>,
                  w1))
         | Rejected err \<Rightarrow>
             (s\<lparr>error := Some ''Failed to fetch cosmetic details'', loading := False\<rparr>,
              console_write ''Error fetching cosmetic details:'' w1))"


subsection \<open>Choosing the proof file\<close>

text \<open>
  \<^verbatim>\<open>handleChange\<close>: \<^verbatim>\<open>e.target.files\<close> is absent or a list of files, of which the first
  is taken.
\<close>

definition handleChange :: "File list option \<Rightarrow> PaymentPage_state \<Rightarrow> PaymentPage_state" where
  "handleChange files s =
     (let file = (case files of
                    None \<Rightarrow> None
                  | Some fs \<Rightarrow> (case fs of [] \<Rightarrow> None | f # _ \<Rightarrow> Some f))
      in s\<lparr>formData := (formData s)\<lparr>proof' := file\<rparr>,
           fileName := map_option file_name file\<rparr>)"

subsection \<open>Submitting the payment\<close>

text \<open>
  The read \<^verbatim>\<open>bookingData.post_code\<close>. The interface declares no property of this name,
  so the value is that of an undeclared property of the stored object, and
  \<^verbatim>\<open>undefined\<close> when the object has only the declared ones.
\<close>

definition post_code :: "BookingFormData \<Rightarrow> jsval" where
  "post_code b = (case map_of (undeclared b) ''post_code'' of Some v \<Rightarrow> v | None \<Rightarrow> JUndefined)"

text \<open>
  The multipart body that \<^verbatim>\<open>handleSubmit\<close> builds. \<^verbatim>\<open>FormData.append\<close> stores a value
  that is not a file as its string.
\<close>

definition submissionData :: "FormData \<Rightarrow> BookingFormData option \<Rightarrow> MultipartFormData" where
  "submissionData fd booking =
     (case proof' fd of
        Some file \<Rightarrow> [(''proof'', FileEntry file)]
      | None \<Rightarrow> [])
     @ (case booking of
          Some b \<Rightarrow>
            [(''name'', TextEntry (name b)),
             (''email'', TextEntry (email b)),
             (''phone'', TextEntry (phone b)),
             (''address'', TextEntry (address b)),
             (''city'', TextEntry (city b)),
             (''post_code'', TextEntry (to_string (post_code b)))]
        | None \<Rightarrow> [])
     @ concat (map (\<lambda>(index, item).
                 [(''cosmetic_ids['' @ dec_nat index @ ''][id]'',
                     TextEntry (String_number (fst item))),
                  (''cosmetic_ids['' @ dec_nat index @ ''][quantity]'',
                     TextEntry (String_number (snd item)))])
               (enumerate 0 (cosmetic_ids fd)))"

text \<open>
  The \<^verbatim>\<open>try\<close> block of \<^verbatim>\<open>handleSubmit\<close>. \<open>apiClient_post url body\<close> is how the request
  settles.
\<close>

definition PaymentPage_try ::
  "(string \<Rightarrow> MultipartFormData \<Rightarrow> AxiosResponse settled) \<Rightarrow> MultipartFormData
     \<Rightarrow> PaymentPage_state \<times> Browser \<Rightarrow> (PaymentPage_state \<times> Browser) completion"
where
  "PaymentPage_try apiClient_post body sw =
     (let (s, w) = sw;
          s1 = s\<lparr>loading := True\<rparr>;
          w1 = send (PostMultipart ''/booking-transaction'' body) w
      in case apiClient_post ''/booking-transaction'' body of
           Rejected err \<Rightarrow> Throw err (s1, w1)
         | Fulfilled response \<Rightarrow>
             if status response = 200 \<or> status response = 201 then
               (case get_prop (data response) ''data'' of
                  Inl err \<Rightarrow> Throw err (s1, w1)
                | Inr d \<Rightarrow>
                    (let w2 = console_write ''Transaction response data:'' w1
                     in case get_prop d ''booking_trx_id'' of
                          Inl err \<Rightarrow> Throw err (s1, w2)
                        | Inr bookingTrxId \<Rightarrow>
                            (case get_prop d ''email'' of
                               Inl err \<Rightarrow> Throw err (s1, w2)
                             | Inr emailValue \<Rightarrow>
                                 (let w3 = (if \<not> truthy bookingTrxId
                                            then console_write ''Error: booking_trx_id is undefined'' w2
                                            else w2);
                                      s2 = s1\<lparr>successMessage :=
                                                 Some ''Payment proof uploaded successfully''\<rparr>;
                                      w4 = removeItem ''bookingData'' (removeItem ''cart'' w3);
                                      s3 = s2\<lparr>formData := \<lparr>proof' = None, cosmetic_ids = []\<rparr>,
                                              loading := False\<rparr>;
                                      w5 = navigate (''/booking-finished?trx_id=''
                                                       @ to_string bookingTrxId
                                                       @ ''&email='' @ to_string emailValue)
                                             None w4
                                  in Normal (s3, w5)))))
             else Normal (s1\<lparr>loading := False\<rparr>,
                          console_write ''Unexpected response status'' w1))"

text \<open>The \<^verbatim>\<open>catch\<close> block of \<^verbatim>\<open>handleSubmit\<close>.\<close>

definition PaymentPage_catch ::
  "thrown \<Rightarrow> PaymentPage_state \<times> Browser \<Rightarrow> PaymentPage_state \<times> Browser"
where
  "PaymentPage_catch err sw =
     (let (s, w) = sw
      in (s\<lparr>loading := False, formErrors := []\<rparr>,
          console_write ''Error submitting payment proof'' w))"

text \<open>
  \<^verbatim>\<open>handleSubmit\<close> of the payment page. \<open>paymentSchema\<close> is \<^verbatim>\<open>paymentSchema.safeParse\<close>,
  of a schema that the page imports.
\<close>

definition PaymentPage_handleSubmit ::
  "(FormData \<Rightarrow> FormData SafeParseReturn)
     \<Rightarrow> (string \<Rightarrow> MultipartFormData \<Rightarrow> AxiosResponse settled)
     \<Rightarrow> PaymentPage_state \<times> Browser \<Rightarrow> (PaymentPage_state \<times> Browser) completion"
where
  "PaymentPage_handleSubmit paymentSchema apiClient_post sw =
     (let (s, w) = sw
      in case paymentSchema (formData s) of
           SafeParseError issues \<Rightarrow> Normal (s\<lparr>formErrors := issues\<rparr>, w)
         | SafeParseSuccess parsed \<Rightarrow>
             (case PaymentPage_try apiClient_post
                     (submissionData (formData s) (bookingData s))
                     (s\<lparr>formErrors := []\<rparr>, w) of
                Normal r \<Rightarrow> Normal r
              | Throw err r \<Rightarrow> Normal (PaymentPage_catch err r)))"

subsection \<open>What the page shows\<close>

text \<open>
  The message under a form field: that of the first issue whose path has the field's
  name, if there is one.
\<close>

definition field_error :: "ZodIssue list \<Rightarrow> string \<Rightarrow> string option" where
  "field_error issues field =
     map_option message (find (\<lambda>issue. Key field \<in> set (path issue)) issues)"

record Checkout =
  shown_subtotal :: int
  shown_totalQuantity :: int
  shown_tax :: rat
  shown_total :: rat
  shown_proof_error :: "string option"

datatype View =
    LoadingView
  | ErrorView string
  | CheckoutView Checkout

definition render :: "PaymentPage_state \<Rightarrow> View" where
  "render s =
     (if loading s then LoadingView
      else case error s of
             Some msg \<Rightarrow>
               if msg \<noteq> [] then ErrorView msg
               else CheckoutView
                      \<lparr>shown_subtotal = subtotal (cart s) (cosmeticDetails s),
                       shown_totalQuantity = totalQuantity (cart s),
                       shown_tax = tax (cart s) (cosmeticDetails s),
                       shown_total = total (cart s) (cosmeticDetails s),
                       shown_proof_error = field_error (formErrors s) ''proof''\<rparr>
           | None \<Rightarrow>
               CheckoutView
                 \<lparr>shown_subtotal = subtotal (cart s) (cosmeticDetails s),
                  shown_totalQuantity = totalQuantity (cart s),
                  shown_tax = tax (cart s) (cosmeticDetails s),
                  shown_total = total (cart s) (cosmeticDetails s),
                  shown_proof_error = field_error (formErrors s) ''proof''\<rparr>)"

section \<open>The order lookup page\<close>

record OrdersFormData =
  email' :: string
  booking_trx_id :: string

record MyOrdersPage_state =
  formData' :: OrdersFormData
  formErrors' :: "ZodIssue list"
  loading' :: bool

definition MyOrdersPage_init :: MyOrdersPage_state where
  "MyOrdersPage_init =
     \<lparr>formData' = \<lparr>email' = [], booking_trx_id = []\<rparr>, formErrors' = [], loading' = False\<rparr>"

text \<open>The JSON body that axios sends for the form data.\<close>

definition check_booking_body :: "OrdersFormData \<Rightarrow> jsval" where
  "check_booking_body fd =
     JObj [(''email'', JStr (email' fd)), (''booking_trx_id'', JStr (booking_trx_id fd))]"

definition not_found :: "NavState" where
  "not_found = \<lparr>bookingDetails = JNull, notFound = True\<rparr>"

text \<open>The \<^verbatim>\<open>try\<close> block of the page's \<^verbatim>\<open>handleSubmit\<close>.\<close>

definition MyOrdersPage_try ::
  "(string \<Rightarrow> jsval \<Rightarrow> AxiosResponse settled) \<Rightarrow> jsval
     \<Rightarrow> MyOrdersPage_state \<times> Browser \<Rightarrow> (MyOrdersPage_state \<times> Browser) completion"
where
  "MyOrdersPage_try apiClient_post body sw =
     (let (s, w) = sw;
          w1 = send (PostJson ''/check-booking'' body) w
      in case apiClient_post ''/check-booking'' body of
           Rejected err \<Rightarrow> Throw err (s, w1)
         | Fulfilled response \<Rightarrow>
             if status response = 200 then
               (case get_prop (data response) ''data'' of
                  Inl err \<Rightarrow> Throw err (s, w1)
                | Inr d \<Rightarrow>
                    if truthy d
                    then Normal (s, navigate ''/my-booking''
                                      (Some \<lparr>bookingDetails = d, notFound = False\<rparr>) w1)
                    else Normal (s, navigate ''/my-booking'' (Some not_found) w1))
             else Normal (s, navigate ''/my-booking'' (Some not_found) w1))"

text \<open>The \<^verbatim>\<open>catch\<close> block: only an axios error that carries a 404 response navigates.\<close>

definition MyOrdersPage_catch ::
  "thrown \<Rightarrow> MyOrdersPage_state \<times> Browser \<Rightarrow> MyOrdersPage_state \<times> Browser"
where
  "MyOrdersPage_catch err sw =
     (let (s, w) = sw
      in case err of
           AxiosError (Some response) \<Rightarrow>
             if status response = 404
             then (s, navigate ''/my-booking'' (Some not_found) w)
             else (s, w)
         | _ \<Rightarrow> (s, w))"

text \<open>
  \<^verbatim>\<open>handleSubmit\<close> of the order lookup page, with its \<^verbatim>\<open>finally\<close> block.
  \<open>viewBookingSchema\<close> is \<^verbatim>\<open>viewBookingSchema.safeParse\<close>.
\<close>

definition MyOrdersPage_handleSubmit ::
  "(OrdersFormData \<Rightarrow> OrdersFormData SafeParseReturn)
     \<Rightarrow> (string \<Rightarrow> jsval \<Rightarrow> AxiosResponse settled)
     \<Rightarrow> MyOrdersPage_state \<times> Browser \<Rightarrow> (MyOrdersPage_state \<times> Browser) completion"
where
  "MyOrdersPage_handleSubmit viewBookingSchema apiClient_post sw =
     (let (s, w) = sw
      in case viewBookingSchema (formData' s) of
           SafeParseError issues \<Rightarrow> Normal (s\<lparr>formErrors' := issues\<rparr>, w)
         | SafeParseSuccess parsed \<Rightarrow>
             (let (s2, w2) =
                    (case MyOrdersPage_try apiClient_post (check_booking_body (formData' s))
                            (s\<lparr>formErrors' := [], loading' := True\<rparr>, w) of
                       Normal r \<Rightarrow> r
                     | Throw err r \<Rightarrow> MyOrdersPage_catch err r)
              in Normal (s2\<lparr>loading' := False\<rparr>, w2)))"

section \<open>The validation schemas\<close>

text \<open>
  Modelled from the spec: \<^verbatim>\<open>paymentSchema\<close> of \<^verbatim>\<open>types/validationBooking\<close>, a file that
  is not among the sources. The spec requires the presence and the type of the proof file;
  \<open>acceptable\<close> is the test of the type. The object that the page validates has no contact
  fields. The wording of the messages is not given.
\<close>

definition paymentSchema_spec :: "(File \<Rightarrow> bool) \<Rightarrow> FormData \<Rightarrow> FormData SafeParseReturn" where
  "paymentSchema_spec acceptable fd =
     (case proof' fd of
        None \<Rightarrow>
          SafeParseError [\<lparr>path = [Key ''proof''], message = ''Proof of payment is required''\<rparr>]
      | Some file \<Rightarrow>
          if acceptable file then SafeParseSuccess fd
          else SafeParseError
                 [\<lparr>path = [Key ''proof''], message = ''Proof of payment is not a valid file''\<rparr>])"

text \<open>
  Modelled from the spec: \<^verbatim>\<open>viewBookingSchema\<close> of the same file, which validates the
  pair of a transaction id and an email address. \<open>is_trx_id\<close> and \<open>is_email\<close> are the rules
  for the two fields, of which the spec names the syntax of the email address.
\<close>

definition viewBookingSchema_spec ::
  "(string \<Rightarrow> bool) \<Rightarrow> (string \<Rightarrow> bool) \<Rightarrow> OrdersFormData \<Rightarrow> OrdersFormData SafeParseReturn"
where
  "viewBookingSchema_spec is_trx_id is_email fd =
     (let issues =
            (if is_trx_id (booking_trx_id fd) then []
             else [\<lparr>path = [Key ''booking_trx_id''], message = ''Booking transaction id is not valid''\<rparr>])
            @ (if is_email (email' fd) then []
               else [\<lparr>path = [Key ''email''], message = ''Email address is not valid''\<rparr>])
      in if issues = [] then SafeParseSuccess fd else SafeParseError issues)"

section \<open>Notions used in the statements\<close>

text \<open>
  The contribution of one fetched detail, written without \<^const>\<open>find\<close>: the cart items
  with the detail's id are filtered out, and the first of them, if there is one, gives the
  quantity.
\<close>

definition contribution :: "CartItem list \<Rightarrow> 'a Cosmetic_scheme \<Rightarrow> int" where
  "contribution items c =
     (case filter (\<lambda>item. cosmetic_id item = id' c) items of
        [] \<Rightarrow> 0
      | item # _ \<Rightarrow> price c * quantity item)"

text \<open>
  How the callbacks of \<^verbatim>\<open>fetchCosmeticDetails\<close> settle, one for each cart item, in the
  order of the cart.
\<close>

definition outcomes ::
  "(nat \<Rightarrow> string \<Rightarrow> Cosmetic settled) \<Rightarrow> CartItem list \<Rightarrow> Cosmetic settled list" where
  "outcomes apiClient_get cartItems =
     map (\<lambda>i. apiClient_get i (''/cosmetic/'' @ slug (cartItems ! i))) [0..<length cartItems]"

text \<open>The browser after the order lookup page has sent its request.\<close>

definition sent_lookup :: "MyOrdersPage_state \<Rightarrow> Browser \<Rightarrow> Browser" where
  "sent_lookup s w = send (PostJson ''/check-booking'' (check_booking_body (formData' s))) w"



subsection \<open>Example inputs\<close>

definition example_file :: File where
  "example_file = \<lparr>file_name = ''proof.png'', file_size = 2048, file_type = ''image/png''\<rparr>"

text \<open>A draft with exactly the properties that \<^verbatim>\<open>BookingFormData\<close> declares.\<close>

definition example_draft :: BookingFormData where
  "example_draft =
     \<lparr>name = ''Ayu'', email = ''a@b.com'', phone = ''081234567890'', post_codes = ''40115'',
      address = ''Jl. Braga 1'', city = ''Bandung'', undeclared = []\<rparr>"

definition example_cart :: "CartItem list" where
  "example_cart =
     [\<lparr>cosmetic_id = 1, slug = ''x'', quantity = 2\<rparr>,
      \<lparr>cosmetic_id = 7, slug = ''y'', quantity = 3\<rparr>]"

text \<open>The payment page after the details have arrived and a proof file has been chosen.\<close>

definition example_page :: PaymentPage_state where
  "example_page =
     \<lparr>formData = \<lparr>proof' = Some example_file, cosmetic_ids = [(1, 2)]\<rparr>,
      cart = [\<lparr>cosmetic_id = 1, slug = ''x'', quantity = 2\<rparr>],
      cosmeticDetails = [\<lparr>id' = 1, price = 100000\<rparr>],
      bookingData = Some example_draft,
      formErrors = [],
      loading = False,
      successMessage = None,
      error = None,
      fileName = Some ''proof.png''\<rparr>"

definition example_browser :: Browser where
  "example_browser =
     \<lparr>localStorage = [''cart'' \<mapsto> ''stored cart'', ''bookingData'' \<mapsto> ''stored draft''],
      navigated = [], requests = [], console = []\<rparr>"

definition example_query :: MyOrdersPage_state where
  "example_query =
     \<lparr>formData' = \<lparr>email' = ''a@b.com'', booking_trx_id = ''TRX1''\<rparr>,
      formErrors' = [], loading' = False\<rparr>"

section \<open>Properties of the pricing calculator\<close>


lemma find_filter:
  "find P xs = (case filter P xs of [] \<Rightarrow> None | x # _ \<Rightarrow> Some x)"
  by (induction xs) simp_all



lemma contribution_unmatched_detail:
  assumes "\<forall>item \<in> set items. cosmetic_id item \<noteq> id' c"
  shows "contribution items c = 0"
proof -
  have "filter (\<lambda>item. cosmetic_id item = id' c) items = []"
    using assms by (simp add: filter_empty_conv)
  then show ?thesis by (simp add: contribution_def)
qed






text \<open>
  The same example in binary64. An integer of magnitude below \<open>2\<^sup>5\<^sup>3\<close> is its own
  rounding, so the subtotal and the total quantity are computed without error. The rate
  \<^verbatim>\<open>0.11\<close> is the number \<open>7926335344172073 / 2\<^sup>5\<^sup>6\<close>; the product of 200000 and this
  number rounds to 22000, and the sum of 200000 and 22000 is 222000.
\<close>

lemma round_half_even_of_int: "round_half_even (of_int m) = m"
  by (simp add: round_half_even_def)

lemma binary64_of_int:
  assumes "e \<le> 52"
  shows "binary64 e (of_int n) = of_int n"
proof -
  define k where "k = nat (52 - e)"
  have p: "(2 :: rat) powi (e - 52) = 1 / 2 ^ k"
    using assms by (simp add: k_def power_int_def field_simps)
  have "of_int n / (2 :: rat) powi (e - 52) = of_int (n * 2 ^ k)"
    by (simp add: p)
  then have "round_half_even (of_int n / 2 powi (e - 52)) = n * 2 ^ k"
    by (simp only: round_half_even_of_int)
  then show ?thesis
    by (simp add: binary64_def p)
qed

lemma example_in_binary64:
  "2 powi (- 4) \<le> (11 / 100 :: rat) \<and> (11 / 100 :: rat) < 2 powi (- 3)
   \<and> binary64 (- 4) (11 / 100) = 7926335344172073 / 2 ^ 56
   \<and> 2 powi 14 \<le> 200000 * binary64 (- 4) (11 / 100)
   \<and> 200000 * binary64 (- 4) (11 / 100) < 2 powi 15
   \<and> binary64 14 (200000 * binary64 (- 4) (11 / 100)) = 22000
   \<and> 2 powi 17 \<le> (200000 + 22000 :: rat) \<and> (200000 + 22000 :: rat) < 2 powi 18
   \<and> binary64 17 (200000 + 22000) = 222000"
  by code_simp

section \<open>Properties of the payment page\<close>

lemmas browser_ops = removeItem_def navigate_def send_def console_write_def

lemma get_prop_throws_TypeError:
  "get_prop v k = Inl err \<Longrightarrow> err = TypeError"
  by (cases v) simp_all

subsection \<open>The joint fetch\<close>

lemma Promise_all_Fulfilled_iff:
  "Promise_all ps = Fulfilled xs \<longleftrightarrow> ps = map Fulfilled xs"
proof (induction ps arbitrary: xs rule: Promise_all.induct)
  case 1
  then show ?case by auto
next
  case (2 e ps)
  then show ?case by auto
next
  case (3 x ps)
  show ?case
  proof (cases "Promise_all ps")
    case (Fulfilled ys)
    with 3 [of ys] have "ps = map Fulfilled ys" by blast
    with Fulfilled show ?thesis
      by (cases xs) (auto simp: inj_map_eq_map inj_def)
  next
    case (Rejected e)
    with 3 have "ps \<noteq> map Fulfilled ys" for ys by auto
    with Rejected show ?thesis
      by (cases xs) auto
  qed
qed

lemma Promise_all_Rejected_iff:
  "(\<exists>e. Promise_all ps = Rejected e) \<longleftrightarrow> (\<exists>e. Rejected e \<in> set ps)"
  by (induction ps rule: Promise_all.induct) (auto split: settled.splits)

lemma callbacks_nth:
  "map (\<lambda>(i, url). (g :: nat \<Rightarrow> string \<Rightarrow> 'a) i url) (enumerate 0 urls)
     = map (\<lambda>i. g i (urls ! i)) [0..<length urls]"
  by (rule nth_equalityI) (simp_all add: nth_enumerate_eq)

lemma fetch_callbacks:
  "map (\<lambda>(i, url). apiClient_get i url)
       (enumerate 0 (map (\<lambda>item. ''/cosmetic/'' @ slug item) cartItems))
     = outcomes apiClient_get cartItems"
  unfolding outcomes_def callbacks_nth
  by (rule nth_equalityI) simp_all

lemma fetch_requests:
  "requests (snd (fetchCosmeticDetails apiClient_get cartItems (s, w)))
     = requests w @ map (\<lambda>item. Get (''/cosmetic/'' @ slug item)) cartItems"
  by (simp add: fetchCosmeticDetails_def Let_def browser_ops comp_def split: settled.split)




lemma fetch_rejected:
  assumes "Rejected e \<in> set (outcomes apiClient_get cartItems)"
  shows "fst (fetchCosmeticDetails apiClient_get cartItems (s, w))
           = s\<lparr>error := Some ''Failed to fetch cosmetic details'', loading := False\<rparr>"
proof -
  from assms obtain e' where "Promise_all (outcomes apiClient_get cartItems) = Rejected e'"
    using Promise_all_Rejected_iff by blast
  then show ?thesis
    unfolding fetchCosmeticDetails_def Let_def fetch_callbacks by simp
qed

lemma fetch_fulfilled:
  assumes "outcomes apiClient_get cartItems = map Fulfilled details"
  shows "fst (fetchCosmeticDetails apiClient_get cartItems (s, w))
           = s\<lparr>cosmeticDetails := details,
                loading := False,
                formData := (formData s)
                  \<lparr>cosmetic_ids := map (\<lambda>item. (cosmetic_id item, quantity item)) cartItems\<rparr>\<rparr>"
proof -
  from assms have "Promise_all (outcomes apiClient_get cartItems) = Fulfilled details"
    by (simp add: Promise_all_Fulfilled_iff)
  then show ?thesis
    unfolding fetchCosmeticDetails_def Let_def fetch_callbacks by simp
qed

text \<open>
  C7. For a cart of N items the fetch sends one request for each item, in the order of the
  cart, and no other. If any of the N callbacks is rejected, the page is left with the
  error message set and \<^verbatim>\<open>loading\<close> off and nothing else changed: what it shows is the
  error view, and on the freshly mounted page the details and the \<^verbatim>\<open>cosmetic_ids\<close> of the
  submission are still empty. If all are fulfilled, the details are the N payloads in the
  order of the cart and \<^verbatim>\<open>cosmetic_ids\<close> holds the id and the quantity of every item.
\<close>

theorem fetch_all_or_nothing:
  "requests (snd (fetchCosmeticDetails apiClient_get cartItems (s, w)))
     = requests w @ map (\<lambda>item. Get (''/cosmetic/'' @ slug item)) cartItems
   \<and> ((\<exists>i e. i < length cartItems
            \<and> apiClient_get i (''/cosmetic/'' @ slug (cartItems ! i)) = Rejected e) \<longrightarrow>
        fst (fetchCosmeticDetails apiClient_get cartItems (s, w))
          = s\<lparr>error := Some ''Failed to fetch cosmetic details'', loading := False\<rparr>
      \<and> render (fst (fetchCosmeticDetails apiClient_get cartItems (s, w)))
          = ErrorView ''Failed to fetch cosmetic details''
      \<and> cosmeticDetails
           (fst (fetchCosmeticDetails apiClient_get cartItems
                   (PaymentPage_init\<lparr>cart := cartItems\<rparr>, w))) = []
      \<and> cosmetic_ids (formData
           (fst (fetchCosmeticDetails apiClient_get cartItems
                   (PaymentPage_init\<lparr>cart := cartItems\<rparr>, w)))) = [])
   \<and> (length details = length cartItems
        \<and> (\<forall>i < length cartItems.
              apiClient_get i (''/cosmetic/'' @ slug (cartItems ! i)) = Fulfilled (details ! i)) \<longrightarrow>
        fst (fetchCosmeticDetails apiClient_get cartItems (s, w))
          = s\<lparr>cosmeticDetails := details,
               loading := False,
               formData := (formData s)
                 \<lparr>cosmetic_ids := map (\<lambda>item. (cosmetic_id item, quantity item)) cartItems\<rparr>\<rparr>)"
proof (intro conjI impI)
  show "requests (snd (fetchCosmeticDetails apiClient_get cartItems (s, w)))
     = requests w @ map (\<lambda>item. Get (''/cosmetic/'' @ slug item)) cartItems"
    by (rule fetch_requests)
next
  assume "\<exists>i e. i < length cartItems
            \<and> apiClient_get i (''/cosmetic/'' @ slug (cartItems ! i)) = Rejected e"
  then obtain i e where i: "i < length cartItems"
    and e: "apiClient_get i (''/cosmetic/'' @ slug (cartItems ! i)) = Rejected e"
    by blast
  have "outcomes apiClient_get cartItems ! i = Rejected e"
    using i e by (simp add: outcomes_def)
  moreover have "i < length (outcomes apiClient_get cartItems)"
    using i by (simp add: outcomes_def)
  ultimately have rej: "Rejected e \<in> set (outcomes apiClient_get cartItems)"
    by (metis nth_mem)
  show "fst (fetchCosmeticDetails apiClient_get cartItems (s, w))
          = s\<lparr>error := Some ''Failed to fetch cosmetic details'', loading := False\<rparr>"
    by (rule fetch_rejected [OF rej])
  then show "render (fst (fetchCosmeticDetails apiClient_get cartItems (s, w)))
          = ErrorView ''Failed to fetch cosmetic details''"
    by (simp add: render_def)
  show "cosmeticDetails
           (fst (fetchCosmeticDetails apiClient_get cartItems
                   (PaymentPage_init\<lparr>cart := cartItems\<rparr>, w))) = []"
    by (simp add: fetch_rejected [OF rej] PaymentPage_init_def)
  show "cosmetic_ids (formData
           (fst (fetchCosmeticDetails apiClient_get cartItems
                   (PaymentPage_init\<lparr>cart := cartItems\<rparr>, w)))) = []"
    by (simp add: fetch_rejected [OF rej] PaymentPage_init_def)
next
  assume a: "length details = length cartItems
        \<and> (\<forall>i < length cartItems.
              apiClient_get i (''/cosmetic/'' @ slug (cartItems ! i)) = Fulfilled (details ! i))"
  have "outcomes apiClient_get cartItems = map Fulfilled details"
    using a by (intro nth_equalityI) (simp_all add: outcomes_def)
  then show "fst (fetchCosmeticDetails apiClient_get cartItems (s, w))
          = s\<lparr>cosmeticDetails := details,
               loading := False,
               formData := (formData s)
                 \<lparr>cosmetic_ids := map (\<lambda>item. (cosmetic_id item, quantity item)) cartItems\<rparr>\<rparr>"
    by (rule fetch_fulfilled)
qed

theorem fetch_all_or_nothing_witness:
  "requests (snd (fetchCosmeticDetails
       (\<lambda>i url. if i = 1 then Rejected (AxiosError None) else Fulfilled \<lparr>id' = 1, price = 100000\<rparr>)
       example_cart (PaymentPage_init\<lparr>cart := example_cart\<rparr>, example_browser)))
     = [Get ''/cosmetic/x'', Get ''/cosmetic/y'']
   \<and> fst (fetchCosmeticDetails
       (\<lambda>i url. if i = 1 then Rejected (AxiosError None) else Fulfilled \<lparr>id' = 1, price = 100000\<rparr>)
       example_cart (PaymentPage_init\<lparr>cart := example_cart\<rparr>, example_browser))
     = PaymentPage_init
         \<lparr>cart := example_cart,
          error := Some ''Failed to fetch cosmetic details'',
          loading := False\<rparr>
   \<and> render (fst (fetchCosmeticDetails
       (\<lambda>i url. if i = 1 then Rejected (AxiosError None) else Fulfilled \<lparr>id' = 1, price = 100000\<rparr>)
       example_cart (PaymentPage_init\<lparr>cart := example_cart\<rparr>, example_browser)))
     = ErrorView ''Failed to fetch cosmetic details''
   \<and> fst (fetchCosmeticDetails
       (\<lambda>i url. Fulfilled \<lparr>id' = int i, price = 100000\<rparr>)
       example_cart (PaymentPage_init\<lparr>cart := example_cart\<rparr>, example_browser))
     = PaymentPage_init
         \<lparr>cart := example_cart,
          cosmeticDetails := [\<lparr>id' = 0, price = 100000\<rparr>, \<lparr>id' = 1, price = 100000\<rparr>],
          loading := False,
          formData := \<lparr>proof' = None, cosmetic_ids = [(1, 2), (7, 3)]\<rparr>\<rparr>"
proof -
  let ?get = "\<lambda>(i :: nat) (url :: string).
     if i = 1 then Rejected (AxiosError None) else Fulfilled \<lparr>id' = 1, price = 100000\<rparr>"
  let ?ok = "\<lambda>(i :: nat) (url :: string). Fulfilled \<lparr>id' = int i, price = 100000\<rparr>"
  have failing: "\<exists>i e. i < length example_cart
      \<and> ?get i (''/cosmetic/'' @ slug (example_cart ! i)) = Rejected e"
    by (intro exI [of _ 1] exI [of _ "AxiosError None"]) (simp add: example_cart_def)
  have all_ok: "length [\<lparr>id' = 0, price = 100000\<rparr>, \<lparr>id' = 1, price = 100000\<rparr>] = length example_cart
      \<and> (\<forall>i < length example_cart.
            ?ok i (''/cosmetic/'' @ slug (example_cart ! i))
              = Fulfilled ([\<lparr>id' = 0, price = 100000\<rparr>, \<lparr>id' = 1, price = 100000\<rparr>] ! i))"
    by (simp add: example_cart_def less_Suc_eq)
  from failing
    fetch_all_or_nothing [where apiClient_get = ?get and cartItems = example_cart
      and s = "PaymentPage_init\<lparr>cart := example_cart\<rparr>" and w = example_browser
      and details = "[]"]
  have 1: "requests (snd (fetchCosmeticDetails ?get example_cart
               (PaymentPage_init\<lparr>cart := example_cart\<rparr>, example_browser)))
             = requests example_browser
                 @ map (\<lambda>item. Get (''/cosmetic/'' @ slug item)) example_cart"
    and 2: "fst (fetchCosmeticDetails ?get example_cart
               (PaymentPage_init\<lparr>cart := example_cart\<rparr>, example_browser))
             = PaymentPage_init\<lparr>cart := example_cart,
                 error := Some ''Failed to fetch cosmetic details'', loading := False\<rparr>"
    and 3: "render (fst (fetchCosmeticDetails ?get example_cart
               (PaymentPage_init\<lparr>cart := example_cart\<rparr>, example_browser)))
             = ErrorView ''Failed to fetch cosmetic details''"
    by blast+
  from all_ok
    fetch_all_or_nothing [where apiClient_get = ?ok and cartItems = example_cart
      and s = "PaymentPage_init\<lparr>cart := example_cart\<rparr>" and w = example_browser
      and details = "[\<lparr>id' = 0, price = 100000\<rparr>, \<lparr>id' = 1, price = 100000\<rparr>]"]
  have 4: "fst (fetchCosmeticDetails ?ok example_cart
               (PaymentPage_init\<lparr>cart := example_cart\<rparr>, example_browser))
             = PaymentPage_init\<lparr>cart := example_cart\<rparr>
                 \<lparr>cosmeticDetails := [\<lparr>id' = 0, price = 100000\<rparr>, \<lparr>id' = 1, price = 100000\<rparr>],
                  loading := False,
                  formData := (formData (PaymentPage_init\<lparr>cart := example_cart\<rparr>))
                    \<lparr>cosmetic_ids := map (\<lambda>item. (cosmetic_id item, quantity item)) example_cart\<rparr>\<rparr>"
    by blast
  from 1 2 3 4 show ?thesis
    by (simp add: example_cart_def example_browser_def PaymentPage_init_def)
qed

subsection \<open>Entering the checkout\<close>




subsection \<open>Submitting the payment\<close>

text \<open>
  C3. A submission that passes validation and whose request is answered with status 200
  or 201 and a body that holds a transaction id and an email under \<^verbatim>\<open>data\<close> removes the
  keys \<^verbatim>\<open>cart\<close> and \<^verbatim>\<open>bookingData\<close> from storage, resets the submission state to
  \<^verbatim>\<open>{proof: null, cosmetic_ids: []}\<close> and navigates to
  \<^verbatim>\<open>/booking-finished?trx_id=<id>&email=<email>\<close>; one request has been sent.
\<close>

theorem payment_success:
  assumes "paymentSchema (formData s) = SafeParseSuccess parsed"
    and "apiClient_post ''/booking-transaction'' (submissionData (formData s) (bookingData s))
           = Fulfilled response"
    and "status response = 200 \<or> status response = 201"
    and "get_prop (data response) ''data'' = Inr d"
    and "get_prop d ''booking_trx_id'' = Inr trx_id"
    and "truthy trx_id"
    and "get_prop d ''email'' = Inr addr"
  shows "PaymentPage_handleSubmit paymentSchema apiClient_post (s, w)
    = Normal
        (s\<lparr>formErrors := [],
           successMessage := Some ''Payment proof uploaded successfully'',
           formData := \<lparr>proof' = None, cosmetic_ids = []\<rparr>,
           loading := False\<rparr>,
         w\<lparr>requests := requests w
              @ [PostMultipart ''/booking-transaction''
                   (submissionData (formData s) (bookingData s))],
           console := console w @ [''Transaction response data:''],
           localStorage := (localStorage w)(''cart'' := None, ''bookingData'' := None),
           navigated := navigated w
              @ [Navigate (''/booking-finished?trx_id='' @ to_string trx_id
                             @ ''&email='' @ to_string addr) None]\<rparr>)"
  using assms
  by (auto simp add: PaymentPage_handleSubmit_def PaymentPage_try_def browser_ops)

theorem payment_success_witness:
  "PaymentPage_handleSubmit SafeParseSuccess
     (\<lambda>url body. Fulfilled
        \<lparr>status = 200,
         data = JObj [(''data'', JObj [(''booking_trx_id'', JStr ''TRX1''),
                                       (''email'', JStr ''a@b.com'')])]\<rparr>)
     (example_page, example_browser)
   = Normal
       (example_page
          \<lparr>formData := \<lparr>proof' = None, cosmetic_ids = []\<rparr>,
           successMessage := Some ''Payment proof uploaded successfully''\<rparr>,
        \<lparr>localStorage = Map.empty,
         navigated = [Navigate ''/booking-finished?trx_id=TRX1&email=a@b.com'' None],
         requests = [PostMultipart ''/booking-transaction''
                       (submissionData (formData example_page) (bookingData example_page))],
         console = [''Transaction response data:'']\<rparr>)"
proof -
  let ?d = "JObj [(''booking_trx_id'', JStr ''TRX1''), (''email'', JStr ''a@b.com'')]"
  let ?response = "\<lparr>status = 200, data = JObj [(''data'', ?d)]\<rparr>"
  let ?post = "\<lambda>(url :: string) (body :: MultipartFormData). Fulfilled ?response"
  have "PaymentPage_handleSubmit SafeParseSuccess ?post (example_page, example_browser)
    = Normal
        (example_page\<lparr>formErrors := [],
           successMessage := Some ''Payment proof uploaded successfully'',
           formData := \<lparr>proof' = None, cosmetic_ids = []\<rparr>,
           loading := False\<rparr>,
         example_browser\<lparr>requests := requests example_browser
              @ [PostMultipart ''/booking-transaction''
                   (submissionData (formData example_page) (bookingData example_page))],
           console := console example_browser @ [''Transaction response data:''],
           localStorage := (localStorage example_browser)(''cart'' := None, ''bookingData'' := None),
           navigated := navigated example_browser
              @ [Navigate (''/booking-finished?trx_id='' @ to_string (JStr ''TRX1'')
                             @ ''&email='' @ to_string (JStr ''a@b.com'')) None]\<rparr>)"
    by (rule payment_success [where response = ?response and d = ?d]) simp_all
  then show ?thesis
    by (simp add: example_page_def example_browser_def)
qed

text \<open>
  C4. The claim asks that a success response without a transaction id leaves the storage
  alone and navigates nowhere. On such a response, status 200 with the body
  \<^verbatim>\<open>{data: {email: "a@b.com"}}\<close>, the handler writes
  \<^verbatim>\<open>Error: booking_trx_id is undefined\<close> to the console and goes on: both keys are
  removed, the submission state is reset and the page navigates to
  \<^verbatim>\<open>/booking-finished?trx_id=undefined&email=a@b.com\<close>.
\<close>

theorem missing_trx_id_still_succeeds:
  "PaymentPage_handleSubmit SafeParseSuccess
     (\<lambda>url body. Fulfilled
        \<lparr>status = 200, data = JObj [(''data'', JObj [(''email'', JStr ''a@b.com'')])]\<rparr>)
     (example_page, example_browser)
   = Normal
       (example_page
          \<lparr>formData := \<lparr>proof' = None, cosmetic_ids = []\<rparr>,
           successMessage := Some ''Payment proof uploaded successfully''\<rparr>,
        \<lparr>localStorage = Map.empty,
         navigated = [Navigate ''/booking-finished?trx_id=undefined&email=a@b.com'' None],
         requests = [PostMultipart ''/booking-transaction''
                       (submissionData (formData example_page) (bookingData example_page))],
         console = [''Transaction response data:'', ''Error: booking_trx_id is undefined'']\<rparr>)"
  by (simp add: PaymentPage_handleSubmit_def PaymentPage_try_def browser_ops
      example_page_def example_browser_def)

text \<open>
  C10. When the request of a validated submission is rejected, the handler ends with
  \<^verbatim>\<open>loading\<close> off and the list of field errors empty; the proof file, the
  \<^verbatim>\<open>cosmetic_ids\<close> and every other part of the page state are as before, and so is the
  storage: of the browser only the list of requests and the console have grown.
\<close>

theorem payment_rejected:
  assumes "paymentSchema (formData s) = SafeParseSuccess parsed"
    and "apiClient_post ''/booking-transaction'' (submissionData (formData s) (bookingData s))
           = Rejected err"
  shows "PaymentPage_handleSubmit paymentSchema apiClient_post (s, w)
    = Normal
        (s\<lparr>formErrors := [], loading := False\<rparr>,
         w\<lparr>requests := requests w
              @ [PostMultipart ''/booking-transaction''
                   (submissionData (formData s) (bookingData s))],
           console := console w @ [''Error submitting payment proof'']\<rparr>)"
  using assms
  by (simp add: PaymentPage_handleSubmit_def PaymentPage_try_def PaymentPage_catch_def browser_ops)

theorem payment_rejected_witness:
  "PaymentPage_handleSubmit SafeParseSuccess (\<lambda>url body. Rejected (AxiosError None))
     (example_page\<lparr>formErrors := [\<lparr>path = [Key ''proof''], message = ''stale''\<rparr>]\<rparr>,
      example_browser)
   = Normal
       (example_page,
        example_browser
          \<lparr>requests := [PostMultipart ''/booking-transaction''
                          (submissionData (formData example_page) (bookingData example_page))],
           console := [''Error submitting payment proof'']\<rparr>)"
proof -
  let ?s = "example_page\<lparr>formErrors := [\<lparr>path = [Key ''proof''], message = ''stale''\<rparr>]\<rparr>"
  let ?post = "\<lambda>(url :: string) (body :: MultipartFormData).
                 Rejected (AxiosError None) :: AxiosResponse settled"
  have "PaymentPage_handleSubmit SafeParseSuccess ?post (?s, example_browser)
    = Normal
        (?s\<lparr>formErrors := [], loading := False\<rparr>,
         example_browser\<lparr>requests := requests example_browser
              @ [PostMultipart ''/booking-transaction''
                   (submissionData (formData ?s) (bookingData ?s))],
           console := console example_browser @ [''Error submitting payment proof'']\<rparr>)"
    by (rule payment_rejected [where err = "AxiosError None"]) simp_all
  then show ?thesis
    by (simp add: example_page_def example_browser_def)
qed

text \<open>
  C9. The claim asks that the field \<^verbatim>\<open>post_code\<close> of the multipart body is the postal
  code of the draft. The handler reads \<^verbatim>\<open>bookingData.post_code\<close>, a property that
  \<^verbatim>\<open>BookingFormData\<close> does not declare (it declares \<^verbatim>\<open>post_codes\<close>): for a draft with
  exactly the declared properties, and the postal code 40115, the body carries the text
  \<^verbatim>\<open>undefined\<close>. The other entries are as the claim says.
\<close>

theorem post_code_of_declared_draft:
  "submissionData \<lparr>proof' = Some example_file, cosmetic_ids = [(1, 2), (7, 3)]\<rparr>
     (Some example_draft)
   = [(''proof'', FileEntry example_file),
      (''name'', TextEntry ''Ayu''),
      (''email'', TextEntry ''a@b.com''),
      (''phone'', TextEntry ''081234567890''),
      (''address'', TextEntry ''Jl. Braga 1''),
      (''city'', TextEntry ''Bandung''),
      (''post_code'', TextEntry ''undefined''),
      (''cosmetic_ids[0][id]'', TextEntry ''1''),
      (''cosmetic_ids[0][quantity]'', TextEntry ''2''),
      (''cosmetic_ids[1][id]'', TextEntry ''7''),
      (''cosmetic_ids[1][quantity]'', TextEntry ''3'')]
   \<and> post_codes example_draft = ''40115''"
  by (simp add: submissionData_def example_draft_def post_code_def String_number_def
      dec_nat.simps enumerate_eq_zip upt_rec)

section \<open>Validation\<close>

lemma field_error_first:
  "field_error issues field
     = (case filter (\<lambda>issue. Key field \<in> set (path issue)) issues of
          [] \<Rightarrow> None
        | issue # _ \<Rightarrow> Some (message issue))"
  by (simp add: field_error_def find_filter split: list.split)

text \<open>
  C8. When the schema rejects the submission of the payment page, or the query of the
  order lookup page, the handler ends with the issues stored as the field errors and
  nothing else changed: the rest of the page state and the whole browser (storage,
  requests, navigation, console) are as before, so no request is sent. Under a field the
  page shows the message of the first issue for that field. Of the schemas as the spec
  describes them: a submission without a proof file is rejected with an issue for
  \<^verbatim>\<open>proof\<close>, a query whose email is not well-formed is rejected with an issue for
  \<^verbatim>\<open>email\<close>, and a submission with an acceptable proof file passes, whatever the
  contact draft, which the payment page does not validate.
\<close>

theorem validation_failure:
  "(paymentSchema (formData s) = SafeParseError issues \<longrightarrow>
      PaymentPage_handleSubmit paymentSchema apiClient_post (s, w)
        = Normal (s\<lparr>formErrors := issues\<rparr>, w))
   \<and> (viewBookingSchema (formData' q) = SafeParseError issues \<longrightarrow>
      MyOrdersPage_handleSubmit viewBookingSchema apiClient_post' (q, w)
        = Normal (q\<lparr>formErrors' := issues\<rparr>, w))
   \<and> field_error issues field
        = (case filter (\<lambda>issue. Key field \<in> set (path issue)) issues of
             [] \<Rightarrow> None
           | issue # _ \<Rightarrow> Some (message issue))
   \<and> (proof' fd = None \<longrightarrow>
        (\<exists>found. paymentSchema_spec acceptable fd = SafeParseError found
                 \<and> field_error found ''proof'' \<noteq> None))
   \<and> (\<not> is_email (email' query) \<longrightarrow>
        (\<exists>found. viewBookingSchema_spec is_trx_id is_email query = SafeParseError found
                 \<and> field_error found ''email'' \<noteq> None))
   \<and> (proof' fd = Some chosen \<and> acceptable chosen \<longrightarrow>
        paymentSchema_spec acceptable fd = SafeParseSuccess fd)"
proof (intro conjI impI)
  assume "paymentSchema (formData s) = SafeParseError issues"
  then show "PaymentPage_handleSubmit paymentSchema apiClient_post (s, w)
        = Normal (s\<lparr>formErrors := issues\<rparr>, w)"
    by (simp add: PaymentPage_handleSubmit_def)
next
  assume "viewBookingSchema (formData' q) = SafeParseError issues"
  then show "MyOrdersPage_handleSubmit viewBookingSchema apiClient_post' (q, w)
        = Normal (q\<lparr>formErrors' := issues\<rparr>, w)"
    by (simp add: MyOrdersPage_handleSubmit_def)
next
  show "field_error issues field
        = (case filter (\<lambda>issue. Key field \<in> set (path issue)) issues of
             [] \<Rightarrow> None
           | issue # _ \<Rightarrow> Some (message issue))"
    by (rule field_error_first)
next
  assume "proof' fd = None"
  then show "\<exists>found. paymentSchema_spec acceptable fd = SafeParseError found
                 \<and> field_error found ''proof'' \<noteq> None"
    by (simp add: paymentSchema_spec_def field_error_def)
next
  assume "\<not> is_email (email' query)"
  then show "\<exists>found. viewBookingSchema_spec is_trx_id is_email query = SafeParseError found
                 \<and> field_error found ''email'' \<noteq> None"
    by (simp add: viewBookingSchema_spec_def field_error_def)
next
  assume "proof' fd = Some chosen \<and> acceptable chosen"
  then show "paymentSchema_spec acceptable fd = SafeParseSuccess fd"
    by (simp add: paymentSchema_spec_def)
qed

theorem validation_failure_witness:
  "PaymentPage_handleSubmit (paymentSchema_spec (\<lambda>file. 0 < file_size file))
     (\<lambda>url body. Rejected (AxiosError None))
     (example_page\<lparr>formData := \<lparr>proof' = None, cosmetic_ids = [(1, 2)]\<rparr>\<rparr>, example_browser)
   = Normal
       (example_page
          \<lparr>formData := \<lparr>proof' = None, cosmetic_ids = [(1, 2)]\<rparr>,
           formErrors := [\<lparr>path = [Key ''proof''], message = ''Proof of payment is required''\<rparr>]\<rparr>,
        example_browser)
   \<and> MyOrdersPage_handleSubmit
       (viewBookingSchema_spec (\<lambda>trx. trx \<noteq> []) (\<lambda>addr. CHR ''@'' \<in> set addr))
       (\<lambda>url body. Rejected (AxiosError None))
       (example_query\<lparr>formData' := \<lparr>email' = ''a.b.com'', booking_trx_id = ''TRX1''\<rparr>\<rparr>,
        example_browser)
   = Normal
       (example_query
          \<lparr>formData' := \<lparr>email' = ''a.b.com'', booking_trx_id = ''TRX1''\<rparr>,
           formErrors' := [\<lparr>path = [Key ''email''], message = ''Email address is not valid''\<rparr>]\<rparr>,
        example_browser)
   \<and> field_error
       [\<lparr>path = [Key ''email''], message = ''Email address is not valid''\<rparr>,
        \<lparr>path = [Key ''proof''], message = ''first''\<rparr>,
        \<lparr>path = [Key ''proof''], message = ''second''\<rparr>] ''proof'' = Some ''first''
   \<and> paymentSchema_spec (\<lambda>file. 0 < file_size file) (formData example_page)
       = SafeParseSuccess (formData example_page)"
proof -
  let ?pay = "paymentSchema_spec (\<lambda>file. 0 < file_size file)"
  let ?view = "viewBookingSchema_spec (\<lambda>trx. trx \<noteq> []) (\<lambda>addr. CHR ''@'' \<in> set addr)"
  let ?s = "example_page\<lparr>formData := \<lparr>proof' = None, cosmetic_ids = [(1, 2)]\<rparr>\<rparr>"
  let ?q = "example_query\<lparr>formData' := \<lparr>email' = ''a.b.com'', booking_trx_id = ''TRX1''\<rparr>\<rparr>"
  let ?proof_issue = "\<lparr>path = [Key ''proof''], message = ''Proof of payment is required''\<rparr>"
  let ?email_issue = "\<lparr>path = [Key ''email''], message = ''Email address is not valid''\<rparr>"
  let ?three = "[?email_issue, \<lparr>path = [Key ''proof''], message = ''first''\<rparr>,
                 \<lparr>path = [Key ''proof''], message = ''second''\<rparr>]"
  have rejected_pay: "?pay (formData ?s) = SafeParseError [?proof_issue]"
    by (simp add: paymentSchema_spec_def)
  have rejected_view: "?view (formData' ?q) = SafeParseError [?email_issue]"
    by (simp add: viewBookingSchema_spec_def)
  have accepted: "proof' (formData example_page) = Some example_file
      \<and> 0 < file_size example_file"
    by (simp add: example_page_def example_file_def)
  from rejected_pay
    validation_failure [where paymentSchema = ?pay and s = ?s and issues = "[?proof_issue]"
      and w = example_browser]
  have 1: "PaymentPage_handleSubmit ?pay (\<lambda>url body. Rejected (AxiosError None))
             (?s, example_browser)
           = Normal (?s\<lparr>formErrors := [?proof_issue]\<rparr>, example_browser)"
    by blast
  from rejected_view
    validation_failure [where viewBookingSchema = ?view and q = ?q and issues = "[?email_issue]"
      and w = example_browser]
  have 2: "MyOrdersPage_handleSubmit ?view (\<lambda>url body. Rejected (AxiosError None))
             (?q, example_browser)
           = Normal (?q\<lparr>formErrors' := [?email_issue]\<rparr>, example_browser)"
    by blast
  from validation_failure [where issues = ?three and field = "''proof''"]
  have 3: "field_error ?three ''proof'' = Some ''first''"
    by simp
  from accepted
    validation_failure [where fd = "formData example_page" and chosen = example_file
      and acceptable = "\<lambda>file. 0 < file_size file"]
  have 4: "?pay (formData example_page) = SafeParseSuccess (formData example_page)"
    by blast
  from 1 2 3 4 show ?thesis
    by simp
qed

section \<open>Properties of the order lookup page\<close>

lemma lookup_result:
  assumes "viewBookingSchema (formData' s) = SafeParseSuccess parsed"
  shows "MyOrdersPage_handleSubmit viewBookingSchema apiClient_post (s, w)
    = Normal
        (s\<lparr>formErrors' := [], loading' := False\<rparr>,
         case apiClient_post ''/check-booking'' (check_booking_body (formData' s)) of
           Fulfilled response \<Rightarrow>
             if status response = 200 then
               (case get_prop (data response) ''data'' of
                  Inl err \<Rightarrow> sent_lookup s w
                | Inr d \<Rightarrow>
                    if truthy d
                    then navigate ''/my-booking''
                           (Some \<lparr>bookingDetails = d, notFound = False\<rparr>) (sent_lookup s w)
                    else navigate ''/my-booking'' (Some not_found) (sent_lookup s w))
             else navigate ''/my-booking'' (Some not_found) (sent_lookup s w)
         | Rejected err \<Rightarrow>
             (case err of
                AxiosError (Some response) \<Rightarrow>
                  if status response = 404
                  then navigate ''/my-booking'' (Some not_found) (sent_lookup s w)
                  else sent_lookup s w
              | _ \<Rightarrow> sent_lookup s w))"
  using assms
  by (auto simp add: MyOrdersPage_handleSubmit_def MyOrdersPage_try_def MyOrdersPage_catch_def
      sent_lookup_def Let_def
      dest: get_prop_throws_TypeError
      split: settled.split sum.split thrown.split option.split)

text \<open>
  The claim C5 as the spec states it asks that every failure of the lookup leads to the
  results view with the not-found flag. The \<^verbatim>\<open>catch\<close> block navigates only for a 404: when
  the request fails without a response, or with the status 500, the handler ends without
  any navigation.
\<close>

theorem order_lookup_failure_counterexample:
  "MyOrdersPage_handleSubmit SafeParseSuccess (\<lambda>url body. Rejected (AxiosError None))
     (example_query, example_browser)
   = Normal
       (example_query,
        example_browser
          \<lparr>requests := [PostJson ''/check-booking''
                          (JObj [(''email'', JStr ''a@b.com''),
                                 (''booking_trx_id'', JStr ''TRX1'')])]\<rparr>)
   \<and> MyOrdersPage_handleSubmit SafeParseSuccess
       (\<lambda>url body. Rejected (AxiosError (Some \<lparr>status = 500, data = JStr []\<rparr>)))
       (example_query, example_browser)
   = Normal
       (example_query,
        example_browser
          \<lparr>requests := [PostJson ''/check-booking''
                          (JObj [(''email'', JStr ''a@b.com''),
                                 (''booking_trx_id'', JStr ''TRX1'')])]\<rparr>)
   \<and> navigated
       (example_browser
          \<lparr>requests := [PostJson ''/check-booking''
                          (JObj [(''email'', JStr ''a@b.com''),
                                 (''booking_trx_id'', JStr ''TRX1'')])]\<rparr>) = []"
  by (simp add: MyOrdersPage_handleSubmit_def MyOrdersPage_try_def MyOrdersPage_catch_def
      check_booking_body_def browser_ops example_query_def example_browser_def)

text \<open>
  C5, amended. For every validated query the handler sends one request, ends normally
  with \<^verbatim>\<open>loading\<close> off and leaves the storage alone. A response with status 200 whose
  body holds a payload under \<^verbatim>\<open>data\<close> leads to the results view with that payload and
  \<^verbatim>\<open>notFound = false\<close>. A response with another status or without a payload, and a
  request rejected with a 404 response, lead to the same view with a null payload and
  \<^verbatim>\<open>notFound = true\<close>. Any other rejection (no response, or a response with another
  status), and a body that is null or undefined, lead to no navigation.
\<close>

theorem order_lookup_outcomes:
  assumes "viewBookingSchema (formData' s) = SafeParseSuccess parsed"
  shows "\<exists>w'. MyOrdersPage_handleSubmit viewBookingSchema apiClient_post (s, w)
              = Normal (s\<lparr>formErrors' := [], loading' := False\<rparr>, w')
     \<and> requests w' = requests w @ [PostJson ''/check-booking'' (check_booking_body (formData' s))]
     \<and> localStorage w' = localStorage w
     \<and> (\<forall>response d.
           apiClient_post ''/check-booking'' (check_booking_body (formData' s)) = Fulfilled response
           \<and> status response = 200 \<and> get_prop (data response) ''data'' = Inr d \<and> truthy d \<longrightarrow>
           navigated w' = navigated w
             @ [Navigate ''/my-booking'' (Some \<lparr>bookingDetails = d, notFound = False\<rparr>)])
     \<and> (\<forall>response d.
           apiClient_post ''/check-booking'' (check_booking_body (formData' s)) = Fulfilled response
           \<and> (status response \<noteq> 200
                \<or> get_prop (data response) ''data'' = Inr d \<and> \<not> truthy d) \<longrightarrow>
           navigated w' = navigated w
             @ [Navigate ''/my-booking'' (Some \<lparr>bookingDetails = JNull, notFound = True\<rparr>)])
     \<and> (\<forall>response.
           apiClient_post ''/check-booking'' (check_booking_body (formData' s))
             = Rejected (AxiosError (Some response))
           \<and> status response = 404 \<longrightarrow>
           navigated w' = navigated w
             @ [Navigate ''/my-booking'' (Some \<lparr>bookingDetails = JNull, notFound = True\<rparr>)])
     \<and> (\<forall>err.
           apiClient_post ''/check-booking'' (check_booking_body (formData' s)) = Rejected err
           \<and> (\<forall>response. err = AxiosError (Some response) \<longrightarrow> status response \<noteq> 404) \<longrightarrow>
           navigated w' = navigated w)
     \<and> (\<forall>response err.
           apiClient_post ''/check-booking'' (check_booking_body (formData' s)) = Fulfilled response
           \<and> status response = 200 \<and> get_prop (data response) ''data'' = Inl err \<longrightarrow>
           navigated w' = navigated w)"
  unfolding lookup_result [of viewBookingSchema s parsed apiClient_post w, OF assms]
  by (auto simp add: sent_lookup_def not_found_def browser_ops
      split: settled.split sum.split thrown.split option.split)

theorem order_lookup_outcomes_witness:
  "(\<exists>w'. MyOrdersPage_handleSubmit SafeParseSuccess
       (\<lambda>url body. Fulfilled
          \<lparr>status = 200, data = JObj [(''data'', JObj [(''booking_trx_id'', JStr ''TRX1'')])]\<rparr>)
       (example_query, example_browser) = Normal (example_query, w')
      \<and> navigated w'
          = [Navigate ''/my-booking''
               (Some \<lparr>bookingDetails = JObj [(''booking_trx_id'', JStr ''TRX1'')],
                      notFound = False\<rparr>)])
   \<and> (\<exists>w'. MyOrdersPage_handleSubmit SafeParseSuccess
       (\<lambda>url body. Rejected (AxiosError (Some \<lparr>status = 404, data = JStr []\<rparr>)))
       (example_query, example_browser) = Normal (example_query, w')
      \<and> navigated w'
          = [Navigate ''/my-booking'' (Some \<lparr>bookingDetails = JNull, notFound = True\<rparr>)])
   \<and> (\<exists>w'. MyOrdersPage_handleSubmit SafeParseSuccess
       (\<lambda>url body. Fulfilled \<lparr>status = 200, data = JObj []\<rparr>)
       (example_query, example_browser) = Normal (example_query, w')
      \<and> navigated w'
          = [Navigate ''/my-booking'' (Some \<lparr>bookingDetails = JNull, notFound = True\<rparr>)])
   \<and> (\<exists>w'. MyOrdersPage_handleSubmit SafeParseSuccess
       (\<lambda>url body. Rejected (AxiosError None))
       (example_query, example_browser) = Normal (example_query, w')
      \<and> navigated w' = [])
   \<and> (\<exists>w'. MyOrdersPage_handleSubmit SafeParseSuccess
       (\<lambda>url body. Fulfilled \<lparr>status = 200, data = JNull\<rparr>)
       (example_query, example_browser) = Normal (example_query, w')
      \<and> navigated w' = [])"
proof -
  have same: "example_query\<lparr>formErrors' := [], loading' := False\<rparr> = example_query"
    by (simp add: example_query_def)
  have nav: "navigated example_browser = []"
    by (simp add: example_browser_def)
  have ok: "SafeParseSuccess (formData' example_query) = SafeParseSuccess (formData' example_query)"
    by (rule refl)
  let ?found = "\<lambda>(url :: string) (body :: jsval). Fulfilled
          \<lparr>status = 200, data = JObj [(''data'', JObj [(''booking_trx_id'', JStr ''TRX1'')])]\<rparr>"
  let ?gone = "\<lambda>(url :: string) (body :: jsval).
          Rejected (AxiosError (Some \<lparr>status = 404, data = JStr []\<rparr>)) :: AxiosResponse settled"
  let ?empty = "\<lambda>(url :: string) (body :: jsval). Fulfilled \<lparr>status = 200, data = JObj []\<rparr>"
  let ?down = "\<lambda>(url :: string) (body :: jsval).
          Rejected (AxiosError None) :: AxiosResponse settled"
  let ?null = "\<lambda>(url :: string) (body :: jsval). Fulfilled \<lparr>status = 200, data = JNull\<rparr>"
  from order_lookup_outcomes [of SafeParseSuccess example_query _ ?found example_browser, OF ok]
  have 1: "\<exists>w'. MyOrdersPage_handleSubmit SafeParseSuccess ?found (example_query, example_browser)
               = Normal (example_query, w')
      \<and> navigated w'
          = [Navigate ''/my-booking''
               (Some \<lparr>bookingDetails = JObj [(''booking_trx_id'', JStr ''TRX1'')],
                      notFound = False\<rparr>)]"
    unfolding same nav by fastforce
  from order_lookup_outcomes [of SafeParseSuccess example_query _ ?gone example_browser, OF ok]
  have 2: "\<exists>w'. MyOrdersPage_handleSubmit SafeParseSuccess ?gone (example_query, example_browser)
               = Normal (example_query, w')
      \<and> navigated w'
          = [Navigate ''/my-booking'' (Some \<lparr>bookingDetails = JNull, notFound = True\<rparr>)]"
    unfolding same nav by fastforce
  from order_lookup_outcomes [of SafeParseSuccess example_query _ ?empty example_browser, OF ok]
  have 3: "\<exists>w'. MyOrdersPage_handleSubmit SafeParseSuccess ?empty (example_query, example_browser)
               = Normal (example_query, w')
      \<and> navigated w'
          = [Navigate ''/my-booking'' (Some \<lparr>bookingDetails = JNull, notFound = True\<rparr>)]"
    unfolding same nav by fastforce
  from order_lookup_outcomes [of SafeParseSuccess example_query _ ?down example_browser, OF ok]
  have 4: "\<exists>w'. MyOrdersPage_handleSubmit SafeParseSuccess ?down (example_query, example_browser)
               = Normal (example_query, w')
      \<and> navigated w' = []"
    unfolding same nav by fastforce
  from order_lookup_outcomes [of SafeParseSuccess example_query _ ?null example_browser, OF ok]
  have 5: "\<exists>w'. MyOrdersPage_handleSubmit SafeParseSuccess ?null (example_query, example_browser)
               = Normal (example_query, w')
      \<and> navigated w' = []"
    unfolding same nav by fastforce
  from 1 2 3 4 5 show ?thesis
    by (intro conjI)
qed

end
